theory Spec2Isabelle
  imports Main "HOL-Library.AList" "HOL-Library.Sublist"
begin

section \<open>Strings\<close>

text \<open>
  A JavaScript string is a sequence of UTF-16 code units. It is modelled as a
  \<^typ>\<open>string\<close>: a character below 128 is the ASCII code unit of that value, a
  character from 128 on stands for some code unit outside ASCII. The functions below
  treat all code units outside ASCII alike (they are neither letters, digits, \<open>-\<close>,
  \<open>_\<close>, \<open>.\<close> nor \<open>/\<close>); \<open>toLowerCase\<close> is modelled on ASCII and leaves the others
  as they are.
\<close>

definition isUpper :: "char \<Rightarrow> bool" where
  "isUpper c = (65 \<le> (of_char c :: nat) \<and> (of_char c :: nat) \<le> 90)"

definition isLower :: "char \<Rightarrow> bool" where
  "isLower c = (97 \<le> (of_char c :: nat) \<and> (of_char c :: nat) \<le> 122)"

definition isDigit :: "char \<Rightarrow> bool" where
  "isDigit c = (48 \<le> (of_char c :: nat) \<and> (of_char c :: nat) \<le> 57)"

definition lowerChar :: "char \<Rightarrow> char" where
  "lowerChar c = (if isUpper c then char_of ((of_char c :: nat) + 32) else c)"

definition toLowerCase :: "string \<Rightarrow> string" where
  "toLowerCase s = map lowerChar s"

text \<open>\<open>s.lastIndexOf(c)\<close>: the last index of \<open>c\<close> in \<open>s\<close>, or \<open>-1\<close>.\<close>

fun lastIndexOf :: "string \<Rightarrow> char \<Rightarrow> int" where
  "lastIndexOf [] c = -1"
| "lastIndexOf (x # xs) c =
     (let r = lastIndexOf xs c in
      if r \<noteq> -1 then r + 1 else if x = c then 0 else -1)"

text \<open>\<open>s.substring(i)\<close>: a negative start is taken as 0, one past the end as the length.\<close>

definition substringFrom :: "string \<Rightarrow> int \<Rightarrow> string" where
  "substringFrom s i = drop (nat i) s"

text \<open>\<open>s.substring(i, j)\<close> for \<open>i \<le> j\<close>, both clamped to the string.\<close>

definition substring :: "string \<Rightarrow> int \<Rightarrow> int \<Rightarrow> string" where
  "substring s i j = take (nat j - nat i) (drop (nat i) s)"

text \<open>\<open>s.split('/')\<close>: never the empty list; the empty string splits into \<open>['']\<close>.\<close>

fun splitSlash :: "string \<Rightarrow> string list" where
  "splitSlash [] = [[]]"
| "splitSlash (c # cs) =
     (if c = CHR ''/'' then [] # splitSlash cs
      else (case splitSlash cs of
              [] \<Rightarrow> [[c]]
            | p # ps \<Rightarrow> (c # p) # ps))"

section \<open>ZipProcessor\<close>

subsection \<open>generateFolderName\<close>

text \<open>\<open>.replace(/\.zip$/i, '')\<close>: drops a final \<open>.zip\<close>, in any letter case.\<close>

definition stripZipSuffix :: "string \<Rightarrow> string" where
  "stripZipSuffix s =
     (if 4 \<le> length s \<and> toLowerCase (drop (length s - 4) s) = ''.zip''
      then take (length s - 4) s else s)"

text \<open>The character class \<open>[a-zA-Z0-9\-_]\<close>.\<close>

definition allowedChar :: "char \<Rightarrow> bool" where
  "allowedChar c = (isLower c \<or> isUpper c \<or> isDigit c \<or> c = CHR ''-'' \<or> c = CHR ''_'')"

text \<open>\<open>.replace(/[^a-zA-Z0-9\-_]/g, '-')\<close>.\<close>

definition replaceDisallowed :: "string \<Rightarrow> string" where
  "replaceDisallowed s = map (\<lambda>c. if allowedChar c then c else CHR ''-'') s"

text \<open>\<open>.replace(/-+/g, '-')\<close>: every maximal run of \<open>-\<close> becomes one \<open>-\<close>.\<close>

fun collapseDashes :: "string \<Rightarrow> string" where
  "collapseDashes (a # b # r) =
     (if a = CHR ''-'' \<and> b = CHR ''-'' then collapseDashes (b # r)
      else a # collapseDashes (b # r))"
| "collapseDashes s = s"

text \<open>
  \<open>.replace(/^-|-$/g, '')\<close>: the scan removes a \<open>-\<close> at index 0, goes on behind it and
  removes a \<open>-\<close> that is the last character of what is left.
\<close>

definition trimDash :: "string \<Rightarrow> string" where
  "trimDash s =
     (let s1 = (case s of [] \<Rightarrow> [] | c # r \<Rightarrow> if c = CHR ''-'' then r else s)
      in if s1 \<noteq> [] \<and> last s1 = CHR ''-'' then butlast s1 else s1)"

definition generateFolderName :: "string \<Rightarrow> string" where
  "generateFolderName originalFileName =
     toLowerCase (trimDash (collapseDashes (replaceDisallowed (stripZipSuffix originalFileName))))"

text \<open>The character class \<open>[a-z0-9_-]\<close> of the specification's pattern.\<close>

definition identChar :: "char \<Rightarrow> bool" where
  "identChar c = (isLower c \<or> isDigit c \<or> c = CHR ''-'' \<or> c = CHR ''_'')"

text \<open>A string matches \<open>^[a-z0-9_-]+$\<close>.\<close>

definition matchesIdent :: "string \<Rightarrow> bool" where
  "matchesIdent s = (s \<noteq> [] \<and> list_all identChar s)"

text \<open>No two adjacent \<open>-\<close>: what \<open>collapseDashes\<close> establishes.\<close>

fun noDoubleDash :: "string \<Rightarrow> bool" where
  "noDoubleDash (a # b # r) = (\<not> (a = CHR ''-'' \<and> b = CHR ''-'') \<and> noDoubleDash (b # r))"
| "noDoubleDash s = True"

text \<open>The names \<open>generateFolderName\<close> leaves unchanged.\<close>

definition cleanName :: "string \<Rightarrow> bool" where
  "cleanName s = (list_all identChar s \<and> noDoubleDash s \<and>
     (s = [] \<or> (hd s \<noteq> CHR ''-'' \<and> last s \<noteq> CHR ''-'')))"

subsection \<open>Extracted files\<close>

text \<open>
  The own properties of the object literals \<open>{}\<close> of the source are kept as
  association lists (\<open>AList.update\<close> overwrites in place or appends). Reading a property
  that is not an own property falls through to \<open>Object.prototype\<close>, whose property names
  are listed here; all of its values are functions or objects, so they are truthy. The
  order in which JavaScript enumerates integer-like keys is not modelled.
\<close>

definition objectPrototypeKeys :: "string list" where
  "objectPrototypeKeys =
     [''constructor'', ''__defineGetter__'', ''__defineSetter__'', ''hasOwnProperty'',
      ''__lookupGetter__'', ''__lookupSetter__'', ''isPrototypeOf'', ''propertyIsEnumerable'',
      ''toString'', ''valueOf'', ''__proto__'', ''toLocaleString'']"

text \<open>
  The value of a property read: a string, or the value \<open>Object.prototype\<close> has under the
  given name.
\<close>

datatype jsvalue = JsString string | Inherited string

text \<open>
  A file record as \<open>extractAllFiles\<close> builds it. The \<open>checksum\<close> field is left out: no
  function modelled here reads it. Times are milliseconds.
\<close>

record fileInfo =
  path :: string
  name :: string
  content :: string
  size :: nat
  compressedSize :: nat
  directory :: string
  mimeType :: jsvalue
  lastModified :: int

subsection \<open>detectMimeType\<close>

definition mimeTypes :: "(string \<times> string) list" where
  "mimeTypes =
     [(''js'', ''application/javascript''),
      (''json'', ''application/json''),
      (''html'', ''text/html''),
      (''css'', ''text/css''),
      (''txt'', ''text/plain''),
      (''md'', ''text/markdown''),
      (''xml'', ''application/xml''),
      (''pdf'', ''application/pdf''),
      (''jpg'', ''image/jpeg''),
      (''jpeg'', ''image/jpeg''),
      (''png'', ''image/png''),
      (''gif'', ''image/gif''),
      (''svg'', ''image/svg+xml''),
      (''zip'', ''application/zip''),
      (''py'', ''text/x-python''),
      (''java'', ''text/x-java-source''),
      (''cpp'', ''text/x-c++src''),
      (''c'', ''text/x-csrc''),
      (''php'', ''application/x-httpd-php'')]"

text \<open>\<open>mimeTypes[extension] || 'application/octet-stream'\<close>.\<close>

definition mimeTypeOf :: "string \<Rightarrow> jsvalue" where
  "mimeTypeOf extension =
     (case map_of mimeTypes extension of
        Some m \<Rightarrow> JsString m
      | None \<Rightarrow>
          if extension \<in> set objectPrototypeKeys then Inherited extension
          else JsString ''application/octet-stream'')"

definition detectMimeType :: "string \<Rightarrow> jsvalue" where
  "detectMimeType filePath =
     (let extension =
        toLowerCase (substringFrom filePath (lastIndexOf filePath CHR ''.'' + 1))
      in mimeTypeOf extension)"

subsection \<open>extractAllFiles\<close>

text \<open>
  An entry of \<open>zip.files\<close>: the \<open>dir\<close> flag, the sizes of \<open>_data\<close> when present, the date
  when present, and the outcome of \<open>zipEntry.async('base64')\<close> (\<open>None\<close> when it rejects).
\<close>

record zipEntry =
  dir :: bool
  dataSizes :: "(nat \<times> nat) option"
  date :: "int option"
  decoded :: "string option"

text \<open>The record built for one entry; \<open>now\<close> is \<open>new Date()\<close>.\<close>

definition fileInfoOf :: "int \<Rightarrow> string \<Rightarrow> zipEntry \<Rightarrow> string \<Rightarrow> fileInfo" where
  "fileInfoOf now relativePath entry fileContent =
     \<lparr> path = relativePath,
       name = last (splitSlash relativePath),
       content = fileContent,
       size = (case dataSizes entry of Some (u, c) \<Rightarrow> u | None \<Rightarrow> 0),
       compressedSize = (case dataSizes entry of Some (u, c) \<Rightarrow> c | None \<Rightarrow> 0),
       directory =
         (if CHR ''/'' \<in> set relativePath
          then substring relativePath 0 (lastIndexOf relativePath CHR ''/'') else []),
       mimeType = detectMimeType relativePath,
       lastModified = (case date entry of Some d \<Rightarrow> d | None \<Rightarrow> now) \<rparr>"

fun extractAllFiles :: "int \<Rightarrow> (string \<times> zipEntry) list \<Rightarrow> fileInfo list" where
  "extractAllFiles now [] = []"
| "extractAllFiles now ((relativePath, entry) # rest) =
     (if \<not> dir entry then
        (case decoded entry of
           Some fileContent \<Rightarrow>
             fileInfoOf now relativePath entry fileContent # extractAllFiles now rest
         | None \<Rightarrow> extractAllFiles now rest)
      else extractAllFiles now rest)"

subsection \<open>generateStatistics\<close>

text \<open>
  A value of the \<open>fileTypes\<close> histogram: a number, or the string that \<open>+ 1\<close> makes of a
  value that is not a number.
\<close>

datatype histValue = Count nat | Text string

text \<open>
  The two rounded figures \<open>averageFileSize\<close> and \<open>compressionRatio\<close> are floating-point
  results and are left out of the record.
\<close>

record statistics =
  totalFiles :: nat
  totalSize :: nat
  totalCompressedSize :: nat
  fileTypes :: "(string \<times> histValue) list"
  directories :: "string list"
  largestFile :: "(string \<times> nat) option"
  smallestFile :: "(string \<times> nat) option"

text \<open>\<open>file.name.substring(file.name.lastIndexOf('.') + 1).toLowerCase()\<close>.\<close>

definition extensionOf :: "string \<Rightarrow> string" where
  "extensionOf fileName =
     toLowerCase (substringFrom fileName (lastIndexOf fileName CHR ''.'' + 1))"

text \<open>How V8 prints a built-in function: what \<open>+ 1\<close> appends to.\<close>

definition nativeFunctionText :: "string \<Rightarrow> string" where
  "nativeFunctionText key =
     ''function '' @ (if key = ''constructor'' then ''Object'' else key) @ ''() { [native code] }''"

text \<open>
  \<open>stats.fileTypes[extension] = (stats.fileTypes[extension] || 0) + 1\<close>. A key that
  \<open>Object.prototype\<close> has is read as its function, and \<open>+ 1\<close> makes a string of it;
  assigning a string to \<open>__proto__\<close> changes nothing.
\<close>

definition bumpFileType :: "(string \<times> histValue) list \<Rightarrow> string \<Rightarrow> (string \<times> histValue) list" where
  "bumpFileType ft extension =
     (case map_of ft extension of
        Some (Count n) \<Rightarrow> AList.update extension (Count (n + 1)) ft
      | Some (Text s) \<Rightarrow>
          AList.update extension (if s = [] then Count 1 else Text (s @ ''1'')) ft
      | None \<Rightarrow>
          if extension = ''__proto__'' then ft
          else if extension \<in> set objectPrototypeKeys
          then AList.update extension (Text (nativeFunctionText extension @ ''1'')) ft
          else AList.update extension (Count 1) ft)"

text \<open>The body of the \<open>forEach\<close>.\<close>

definition statisticsStep :: "fileInfo \<Rightarrow> statistics \<Rightarrow> statistics" where
  "statisticsStep file stats =
     stats
       \<lparr> totalSize := totalSize stats + size file,
         totalCompressedSize := totalCompressedSize stats + compressedSize file,
         fileTypes := bumpFileType (fileTypes stats) (extensionOf (name file)),
         directories :=
           (if directory file \<noteq> [] \<and> directory file \<notin> set (directories stats)
            then directories stats @ [directory file] else directories stats),
         largestFile :=
           (case largestFile stats of
              None \<Rightarrow> Some (name file, size file)
            | Some (n, s) \<Rightarrow> if size file > s then Some (name file, size file) else Some (n, s)),
         smallestFile :=
           (case smallestFile stats of
              None \<Rightarrow> Some (name file, size file)
            | Some (n, s) \<Rightarrow> if size file < s then Some (name file, size file) else Some (n, s)) \<rparr>"

definition generateStatistics :: "fileInfo list \<Rightarrow> statistics" where
  "generateStatistics extractedFiles =
     fold statisticsStep extractedFiles
       \<lparr> totalFiles = length extractedFiles, totalSize = 0, totalCompressedSize = 0,
         fileTypes = [], directories = [], largestFile = None, smallestFile = None \<rparr>"

text \<open>Two extracted files named \<open>json\<close>: one at the root of the archive, one under \<open>src/\<close>.\<close>

definition rootJson :: fileInfo where
  "rootJson = fileInfoOf 0 ''json''
     \<lparr> dir = False, dataSizes = Some (10, 4), date = None, decoded = Some ''e30='' \<rparr> ''e30=''"

definition nestedJson :: fileInfo where
  "nestedJson = fileInfoOf 0 ''src/json''
     \<lparr> dir = False, dataSizes = Some (10, 4), date = None, decoded = Some ''e30='' \<rparr> ''e30=''"

subsection \<open>buildFileStructure\<close>






















section \<open>GitHubAgent\<close>

subsection \<open>Values, errors and the environment\<close>

text \<open>A JSON value: what \<open>response.json()\<close> yields and what \<open>JSON.stringify\<close> is given.\<close>

datatype json =
    JNull
  | JBool bool
  | JNum int
  | JStr string
  | JArr "json list"
  | JObj "(string \<times> json) list"

fun truthy :: "json \<Rightarrow> bool" where
  "truthy JNull = False"
| "truthy (JBool b) = b"
| "truthy (JNum n) = (n \<noteq> 0)"
| "truthy (JStr s) = (s \<noteq> [])"
| "truthy (JArr xs) = True"
| "truthy (JObj kvs) = True"

text \<open>
  What the code throws: \<open>new Error(message)\<close>, with the \<open>status\<close> property when
  \<open>makeGitHubApiCall\<close> has set one; a \<open>TypeError\<close> of the runtime; and what \<open>fetch\<close> or
  \<open>response.json()\<close> rejects with. Each has a \<open>message\<close>; only the first can have a
  \<open>status\<close>.
\<close>

datatype jsError =
    Error string "nat option"
  | TypeError string
  | Rejection string

fun messageOf :: "jsError \<Rightarrow> string" where
  "messageOf (Error m st) = m"
| "messageOf (TypeError m) = m"
| "messageOf (Rejection m) = m"

fun statusOf :: "jsError \<Rightarrow> nat option" where
  "statusOf (Error m st) = st"
| "statusOf (TypeError m) = None"
| "statusOf (Rejection m) = None"

text \<open>
  \<open>value.key\<close> for a JSON value: reading a property of \<open>null\<close> throws, a missing
  property is \<open>undefined\<close> (\<open>None\<close>). Only objects have the properties read here.
\<close>

fun getProperty :: "json \<Rightarrow> string \<Rightarrow> jsError + json option" where
  "getProperty JNull key =
     Inl (TypeError (''Cannot read properties of null (reading '' @ [CHR 0x27] @ key @ [CHR 0x27] @ '')''))"
| "getProperty (JObj kvs) key = Inr (map_of kvs key)"
| "getProperty v key = Inr None"

text \<open>A request as \<open>fetch\<close> receives it; of the headers only \<open>Authorization\<close> varies.\<close>

record request =
  httpMethod :: string
  url :: string
  authorization :: string
  body :: "json option"

text \<open>
  A response: \<open>status\<close>, \<open>statusText\<close>, and what \<open>response.json()\<close> settles to (\<open>Inl\<close> the
  message it rejects with).
\<close>

record response =
  status :: nat
  statusText :: string
  jsonBody :: "string + json"

definition ok :: "response \<Rightarrow> bool" where
  "ok r = (200 \<le> status r \<and> status r \<le> 299)"

text \<open>\<open>fetch\<close> resolves to a response or rejects with a message.\<close>

datatype fetchResult = Resolved response | Rejected string

text \<open>
  The call sites of \<open>this.delay\<close>, and what a run leaves behind: the timers it waited
  for, the API calls it made (each with the time at which \<open>makeGitHubApiCall\<close> was
  called, the time at which it was answered, and its outcome), and the errors caught by
  the retry loop with the number of the attempt.
\<close>

datatype delaySite = RateLimit | Retry | Poll | BetweenBatches

datatype event =
    Delay delaySite int
  | Call int int string string "json option" "jsError + json"
  | Caught string nat jsError

text \<open>
  The state a run threads through: the clock (\<open>Date.now()\<close>, in milliseconds), the
  agent's \<open>lastRequestTime\<close>, the state of the remote side, and the events so far.
\<close>

record 'n state =
  now :: int
  lastRequestTime :: int
  net :: 'n
  trace :: "event list"

text \<open>
  What the code calls and does not define: \<open>fetch\<close> (from the state of the remote side,
  the time and the request to the result, the time the call takes and the new state of
  the remote side), \<open>String.prototype.localeCompare\<close>, \<open>String(v)\<close> for a JSON value, and
  \<open>Buffer.from(s).toString('base64')\<close>. What \<open>generateReadmeContent\<close> makes of the time,
  the repository name and the files is taken as given as well: the text it returns, or
  the error it throws. (It throws where \<open>generateDirectoryTree\<close> walks out of its own
  tree: a path component such as \<open>constructor\<close> reads as a built-in property, the walk
  goes on from that value, and an assignment to a property of a string or a number, as
  for the path \<open>constructor/name/x\<close>, is a \<open>TypeError\<close> in class code.)
\<close>

record 'n env =
  fetch :: "'n \<Rightarrow> int \<Rightarrow> request \<Rightarrow> fetchResult \<times> nat \<times> 'n"
  localeCompare :: "string \<Rightarrow> string \<Rightarrow> int"
  stringOf :: "json \<Rightarrow> string"
  base64 :: "string \<Rightarrow> string"
  generateReadmeContent :: "int \<Rightarrow> string \<Rightarrow> fileInfo list \<Rightarrow> jsError + string"





definition msgReadyTimeout :: string where \<comment> \<open>waitForRepositoryReady: timed out\<close>
  "msgReadyTimeout =
     [CHR 0xE7, CHR 0xAD, CHR 0x89, CHR 0xE5, CHR 0xBE, CHR 0x85, CHR 0xE4, CHR 0xBB,
      CHR 0x93, CHR 0xE5, CHR 0xBA, CHR 0x93, CHR 0xE5, CHR 0x88, CHR 0x9D, CHR 0xE5,
      CHR 0xA7, CHR 0x8B, CHR 0xE5, CHR 0x8C, CHR 0x96, CHR 0xE8, CHR 0xB6, CHR 0x85,
      CHR 0xE6, CHR 0x97, CHR 0xB6]"

definition msgApiCallFailed :: string where \<comment> \<open>makeGitHubApiCall: the default message, before status and status text\<close>
  "msgApiCallFailed =
     [CHR ''G'', CHR ''i'', CHR ''t'', CHR ''H'', CHR ''u'', CHR ''b'', CHR '' '',
      CHR ''A'', CHR ''P'', CHR ''I'', CHR 0xE8, CHR 0xB0, CHR 0x83, CHR 0xE7, CHR 0x94,
      CHR 0xA8, CHR 0xE5, CHR 0xA4, CHR 0xB1, CHR 0xE8, CHR 0xB4, CHR 0xA5, CHR '':'',
      CHR '' '']"





text \<open>Decimal digits of a number, as a template literal prints it.\<close>

function decimal :: "nat \<Rightarrow> string" where
  "decimal n =
     (if n < 10 then [char_of (48 + n)] else decimal (n div 10) @ [char_of (48 + n mod 10)])"
  by pat_completeness auto
termination
  by (relation "measure id") auto

declare decimal.simps [simp del]

subsection \<open>Configuration\<close>

text \<open>
  The constructor's argument; \<open>None\<close> is a missing property. Counts and delays are
  natural numbers.
\<close>

record config =
  cfgGithubToken :: string
  cfgMcpServerUrl :: string
  cfgOwner :: string
  cfgMaxRetries :: "nat option"
  cfgRetryDelay :: "nat option"
  cfgBatchSize :: "nat option"
  cfgRateLimitDelay :: "nat option"

record agent =
  githubToken :: string
  mcpServerUrl :: string
  owner :: string
  maxRetries :: nat
  retryDelay :: nat
  batchSize :: nat
  rateLimitDelay :: nat

text \<open>\<open>x || d\<close> for a number that may be missing: \<open>undefined\<close> and \<open>0\<close> give the default.\<close>

definition orDefault :: "nat option \<Rightarrow> nat \<Rightarrow> nat" where
  "orDefault x d = (case x of None \<Rightarrow> d | Some n \<Rightarrow> if n = 0 then d else n)"

text \<open>The constructor; it also sets \<open>lastRequestTime\<close> to 0, see \<open>initialState\<close>.\<close>

definition GitHubAgent :: "config \<Rightarrow> agent" where
  "GitHubAgent cfg =
     \<lparr> githubToken = cfgGithubToken cfg,
       mcpServerUrl = cfgMcpServerUrl cfg,
       owner = cfgOwner cfg,
       maxRetries = orDefault (cfgMaxRetries cfg) 3,
       retryDelay = orDefault (cfgRetryDelay cfg) 1000,
       batchSize = orDefault (cfgBatchSize cfg) 10,
       rateLimitDelay = orDefault (cfgRateLimitDelay cfg) 100 \<rparr>"

definition initialState :: "int \<Rightarrow> 'n \<Rightarrow> 'n state" where
  "initialState t n = \<lparr> now = t, lastRequestTime = 0, net = n, trace = [] \<rparr>"

text \<open>The options object; \<open>None\<close> is a missing property.\<close>

record options =
  description :: "string option"
  isPrivate :: "bool option"
  gitignoreTemplate :: "string option"
  licenseTemplate :: "string option"
  createReadme :: "bool option"
  commitMessage :: "string option"
  branch :: "string option"
  checkExisting :: "bool option"
  maxFileSize :: "nat option"
  allowedExtensions :: "string list option"

definition noOptions :: options where
  "noOptions =
     \<lparr> description = None, isPrivate = None, gitignoreTemplate = None, licenseTemplate = None,
       createReadme = None, commitMessage = None, branch = None, checkExisting = None,
       maxFileSize = None, allowedExtensions = None \<rparr>"

text \<open>\<open>s || d\<close> for a string that may be missing: \<open>undefined\<close> and \<open>''\<close> give the default.\<close>

definition orString :: "string option \<Rightarrow> string \<Rightarrow> string" where
  "orString x d = (case x of None \<Rightarrow> d | Some s \<Rightarrow> if s = [] then d else s)"

subsection \<open>delay, enforceRateLimit, makeGitHubApiCall\<close>

text \<open>
  \<open>await this.delay(ms)\<close>: the timer is taken to fire when it is due, so the clock
  advances by \<open>ms\<close> (a timer with a delay below 1 fires at once).
\<close>

definition delay :: "delaySite \<Rightarrow> int \<Rightarrow> 'n state \<Rightarrow> 'n state" where
  "delay site ms s = s \<lparr> now := now s + max 0 ms, trace := trace s @ [Delay site ms] \<rparr>"

text \<open>
  The first half of \<open>enforceRateLimit\<close>, up to the \<open>await\<close>: from \<open>Date.now()\<close> and
  \<open>lastRequestTime\<close> to the time to wait, if any.
\<close>

definition rateLimitWait :: "agent \<Rightarrow> int \<Rightarrow> int \<Rightarrow> int option" where
  "rateLimitWait a t lastTime =
     (let timeSinceLastRequest = t - lastTime
      in if timeSinceLastRequest < int (rateLimitDelay a)
         then Some (int (rateLimitDelay a) - timeSinceLastRequest) else None)"

text \<open>
  \<open>enforceRateLimit\<close>, run by one caller from its first to its last statement with no
  other caller in between.
\<close>

definition enforceRateLimit :: "agent \<Rightarrow> 'n state \<Rightarrow> 'n state" where
  "enforceRateLimit a s =
     (let s1 = (case rateLimitWait a (now s) (lastRequestTime s) of
                  Some ms \<Rightarrow> delay RateLimit ms s
                | None \<Rightarrow> s)
      in s1 \<lparr> lastRequestTime := now s1 \<rparr>)"

text \<open>The request \<open>makeGitHubApiCall\<close> hands to \<open>fetch\<close>.\<close>

definition requestOf :: "agent \<Rightarrow> string \<Rightarrow> string \<Rightarrow> json option \<Rightarrow> request" where
  "requestOf a method endpoint data =
     \<lparr> httpMethod = method,
       url = ''https://api.github.com'' @ endpoint,
       authorization = ''Bearer '' @ githubToken a,
       body = (case data of
                 Some d \<Rightarrow>
                   if truthy d \<and> (method = ''POST'' \<or> method = ''PUT'' \<or> method = ''PATCH'')
                   then Some d else None
               | None \<Rightarrow> None) \<rparr>"

text \<open>
  What \<open>makeGitHubApiCall\<close> makes of the result of \<open>fetch\<close>: the value it returns or the
  error it throws.
\<close>

definition outcomeOf :: "'n env \<Rightarrow> fetchResult \<Rightarrow> jsError + json" where
  "outcomeOf e res =
     (case res of
        Rejected m \<Rightarrow> Inl (Rejection m)
      | Resolved r \<Rightarrow>
          if \<not> ok r then
            (let errorData = (case jsonBody r of Inl m \<Rightarrow> JObj [] | Inr j \<Rightarrow> j)
             in case getProperty errorData ''message'' of
                  Inl t \<Rightarrow> Inl t
                | Inr msg \<Rightarrow>
                    Inl (Error
                      (case msg of
                         Some v \<Rightarrow>
                           if truthy v then stringOf e v
                           else msgApiCallFailed @ decimal (status r) @ '' '' @ statusText r
                       | None \<Rightarrow> msgApiCallFailed @ decimal (status r) @ '' '' @ statusText r)
                      (Some (status r))))
          else (case jsonBody r of Inl m \<Rightarrow> Inl (Rejection m) | Inr j \<Rightarrow> Inr j))"

text \<open>
  \<open>makeGitHubApiCall\<close>, run by one caller with no other caller in between: the remote
  side receives the request when \<open>fetch\<close> is called, and the answer is there after the
  time the call takes.
\<close>

definition makeGitHubApiCall ::
  "'n env \<Rightarrow> agent \<Rightarrow> string \<Rightarrow> string \<Rightarrow> json option \<Rightarrow> 'n state \<Rightarrow> (jsError + json) \<times> 'n state" where
  "makeGitHubApiCall e a method endpoint data s =
     (let s1 = enforceRateLimit a s;
          (res, took, n') = fetch e (net s1) (now s1) (requestOf a method endpoint data);
          outcome = outcomeOf e res
      in (outcome,
          s1 \<lparr> now := now s1 + int took, net := n',
               trace := trace s1 @
                 [Call (now s) (now s1 + int took) method endpoint data outcome] \<rparr>))"

text \<open>The clock never goes back: what the readiness loop needs to end.\<close>

lemma now_enforceRateLimit: "now s \<le> now (enforceRateLimit a s)"
  by (simp add: enforceRateLimit_def delay_def Let_def split: option.splits)

lemma now_makeGitHubApiCall: "now s \<le> now (snd (makeGitHubApiCall e a method endpoint data s))"
proof -
  have "now (enforceRateLimit a s) \<le> now (snd (makeGitHubApiCall e a method endpoint data s))"
    by (simp add: makeGitHubApiCall_def requestOf_def outcomeOf_def Let_def split: prod.splits)
  with now_enforceRateLimit [of s a] show ?thesis by linarith
qed

subsection \<open>Concurrent callers of enforceRateLimit\<close>

text \<open>
  \<open>processBatch\<close> starts the uploads of a batch in one synchronous run of \<open>map\<close>; each
  runs \<open>enforceRateLimit\<close> up to its \<open>await\<close> before the next is started, and goes on
  when its timer fires. The state of that: the agent's \<open>lastRequestTime\<close>, the pending
  timers (when due, and for which caller) and the callers that have completed
  \<open>enforceRateLimit\<close>, each with the time at which it did.
\<close>

record limiter =
  lastTime :: int
  timers :: "(int \<times> nat) list"
  completed :: "(nat \<times> int) list"

text \<open>
  The first half of \<open>enforceRateLimit\<close> for the caller \<open>i\<close>, at the time \<open>t\<close>: with nothing
  to wait for, the caller sets \<open>lastRequestTime\<close> and completes at once; otherwise it
  leaves a timer.
\<close>

definition startCaller :: "agent \<Rightarrow> int \<Rightarrow> nat \<Rightarrow> limiter \<Rightarrow> limiter" where
  "startCaller a t i st =
     (case rateLimitWait a t (lastTime st) of
        None \<Rightarrow> st \<lparr> lastTime := t, completed := completed st @ [(i, t)] \<rparr>
      | Some ms \<Rightarrow> st \<lparr> timers := timers st @ [(t + ms, i)] \<rparr>)"

text \<open>
  The second half, when the timer fires (at the time it is due): the caller sets
  \<open>lastRequestTime\<close> to the time it then reads and completes.
\<close>

definition fireTimer :: "int \<times> nat \<Rightarrow> limiter \<Rightarrow> limiter" where
  "fireTimer timer st =
     st \<lparr> lastTime := fst timer, completed := completed st @ [(snd timer, fst timer)] \<rparr>"

text \<open>
  \<open>n\<close> callers started together at the time \<open>t\<close>, then the timers in the order in which
  they are due (timers due together fire in the order of their creation): the callers
  with their completion times.
\<close>

definition concurrentCallers :: "agent \<Rightarrow> int \<Rightarrow> int \<Rightarrow> nat \<Rightarrow> (nat \<times> int) list" where
  "concurrentCallers a t lastTime0 n =
     (let started = fold (startCaller a t) [0..<n]
                      \<lparr> lastTime = lastTime0, timers = [], completed = [] \<rparr>
      in completed (fold fireTimer (sort_key fst (timers started)) started))"

subsection \<open>validateInput, createRepository, waitForRepositoryReady\<close>





text \<open>
  The \<open>while\<close> loop of \<open>waitForRepositoryReady\<close>. It ends: a round that goes on has
  waited a second.
\<close>

function waitLoop ::
  "'n env \<Rightarrow> agent \<Rightarrow> string \<Rightarrow> int \<Rightarrow> int \<Rightarrow> 'n state \<Rightarrow> (jsError + unit) \<times> 'n state" where
  "waitLoop e a endpoint startTime maxWaitTime s =
     (if now s - startTime < maxWaitTime then
        (case makeGitHubApiCall e a ''GET'' endpoint None s of
           (Inr repo, s1) \<Rightarrow> (Inr (), s1)
         | (Inl err, s1) \<Rightarrow>
             if statusOf err = Some 404
             then waitLoop e a endpoint startTime maxWaitTime (delay Poll 1000 s1)
             else (Inl err, s1))
      else (Inl (Error msgReadyTimeout None), s))"
  by pat_completeness auto
termination
proof (relation "measure (\<lambda>(e, a, endpoint, startTime, maxWaitTime, s).
    nat (maxWaitTime - (now s - startTime)))", goal_cases)
  case 1
  show ?case by simp
next
  case (2 e a endpoint startTime maxWaitTime s x1 s1 err)
  from 2(2) have "s1 = snd (makeGitHubApiCall e a ''GET'' endpoint None s)"
    by (metis snd_conv)
  then have "now s \<le> now s1" by (simp add: now_makeGitHubApiCall)
  with 2(1) show ?case by (simp add: delay_def)
qed

declare waitLoop.simps [simp del]

definition waitForRepositoryReady ::
  "'n env \<Rightarrow> agent \<Rightarrow> string \<Rightarrow> string \<Rightarrow> int \<Rightarrow> 'n state \<Rightarrow> (jsError + unit) \<times> 'n state" where
  "waitForRepositoryReady e a ownerName repoName maxWaitTime s =
     waitLoop e a (''/repos/'' @ ownerName @ ''/'' @ repoName) (now s) maxWaitTime s"

subsection \<open>uploadSingleFile and uploadSingleFileWithRetry\<close>

definition contentsEndpoint :: "string \<Rightarrow> string \<Rightarrow> fileInfo \<Rightarrow> string" where
  "contentsEndpoint ownerName repoName file =
     ''/repos/'' @ ownerName @ ''/'' @ repoName @ ''/contents/'' @ path file"

definition uploadSingleFile ::
  "'n env \<Rightarrow> agent \<Rightarrow> string \<Rightarrow> string \<Rightarrow> fileInfo \<Rightarrow> options \<Rightarrow> 'n state
   \<Rightarrow> (jsError + json) \<times> 'n state" where
  "uploadSingleFile e a ownerName repoName file opts s =
     (let s1 = enforceRateLimit a s;
          fileData =
            [(''message'', JStr (orString (commitMessage opts) (''Add '' @ name file))),
             (''content'', JStr (content file)),
             (''branch'', JStr (orString (branch opts) ''main''))];
          put = (\<lambda>fd s'. makeGitHubApiCall e a ''PUT''
                   (contentsEndpoint ownerName repoName file) (Some (JObj fd)) s')
      in if checkExisting opts \<noteq> Some False then
           (case makeGitHubApiCall e a ''GET'' (contentsEndpoint ownerName repoName file) None s1 of
              (Inr existingFile, s2) \<Rightarrow>
                (case getProperty existingFile ''sha'' of
                   Inl t \<Rightarrow> (Inl t, s2)
                 | Inr None \<Rightarrow> put fileData s2
                 | Inr (Some sha) \<Rightarrow>
                     if truthy sha then put (fileData @ [(''sha'', sha)]) s2
                     else put fileData s2)
            | (Inl err, s2) \<Rightarrow>
                if statusOf err \<noteq> Some 404 then (Inl err, s2) else put fileData s2)
         else put fileData s1)"

text \<open>
  The \<open>for\<close> loop of \<open>uploadSingleFileWithRetry\<close>, from the attempt \<open>attempt\<close> on. The
  error thrown at the end is \<open>lastError\<close>; \<open>Inl None\<close> is \<open>throw undefined\<close>, when the
  loop body never ran.
\<close>

function retryLoop ::
  "'n env \<Rightarrow> agent \<Rightarrow> string \<Rightarrow> string \<Rightarrow> fileInfo \<Rightarrow> options \<Rightarrow> nat \<Rightarrow> jsError option
   \<Rightarrow> 'n state \<Rightarrow> (jsError option + json) \<times> 'n state" where
  "retryLoop e a ownerName repoName file opts attempt lastError s =
     (if attempt \<le> maxRetries a then
        (case uploadSingleFile e a ownerName repoName file opts s of
           (Inr result, s1) \<Rightarrow> (Inr result, s1)
         | (Inl err, s1) \<Rightarrow>
             (let s2 = s1 \<lparr> trace := trace s1 @ [Caught (path file) attempt err] \<rparr>;
                  s3 = (if attempt < maxRetries a
                        then delay Retry (int (retryDelay a * 2 ^ (attempt - 1))) s2
                        else s2)
              in retryLoop e a ownerName repoName file opts (attempt + 1) (Some err) s3))
      else (Inl lastError, s))"
  by pat_completeness auto
termination
  by (relation "measure (\<lambda>(e, a, ownerName, repoName, file, opts, attempt, lastError, s).
        maxRetries a + 1 - attempt)") auto

declare retryLoop.simps [simp del]

definition uploadSingleFileWithRetry ::
  "'n env \<Rightarrow> agent \<Rightarrow> string \<Rightarrow> string \<Rightarrow> fileInfo \<Rightarrow> options \<Rightarrow> 'n state
   \<Rightarrow> (jsError option + json) \<times> 'n state" where
  "uploadSingleFileWithRetry e a ownerName repoName file opts s =
     retryLoop e a ownerName repoName file opts 1 None s"

subsection \<open>filterAndSortFiles and createBatches\<close>

text \<open>The comparison function given to \<open>sort\<close>.\<close>

definition compareFiles :: "'n env \<Rightarrow> fileInfo \<Rightarrow> fileInfo \<Rightarrow> int" where
  "compareFiles e x y =
     (if directory x \<noteq> directory y then localeCompare e (directory x) (directory y)
      else localeCompare e (name x) (name y))"

text \<open>
  \<open>Array.prototype.sort\<close> is stable; it is modelled as the insertion sort that puts an
  element before the first later one it does not compare greater than.
\<close>

fun insertFile :: "'n env \<Rightarrow> fileInfo \<Rightarrow> fileInfo list \<Rightarrow> fileInfo list" where
  "insertFile e x [] = [x]"
| "insertFile e x (y # ys) =
     (if compareFiles e x y \<le> 0 then x # y # ys else y # insertFile e x ys)"

definition sortFiles :: "'n env \<Rightarrow> fileInfo list \<Rightarrow> fileInfo list" where
  "sortFiles e files = foldr (insertFile e) files []"

text \<open>
  The two predicates of the filter: each applies when its option is truthy (a
  \<open>maxFileSize\<close> of 0 is not; an empty \<open>allowedExtensions\<close> array is). The extension
  compared includes the dot; a name without a dot is compared as a whole.
\<close>

definition passesSize :: "options \<Rightarrow> fileInfo \<Rightarrow> bool" where
  "passesSize opts file =
     (case maxFileSize opts of
        Some m \<Rightarrow> (if m \<noteq> 0 then size file \<le> m else True)
      | None \<Rightarrow> True)"

definition passesExtension :: "options \<Rightarrow> fileInfo \<Rightarrow> bool" where
  "passesExtension opts file =
     (case allowedExtensions opts of
        Some exts \<Rightarrow>
          toLowerCase (substringFrom (name file) (lastIndexOf (name file) CHR ''.'')) \<in> set exts
      | None \<Rightarrow> True)"

definition filterAndSortFiles :: "'n env \<Rightarrow> fileInfo list \<Rightarrow> options \<Rightarrow> fileInfo list" where
  "filterAndSortFiles e files opts =
     sortFiles e (filter (passesExtension opts) (filter (passesSize opts) files))"

text \<open>\<open>files.slice(i, j)\<close> for \<open>0 \<le> i \<le> j\<close>.\<close>

definition slice :: "'a list \<Rightarrow> nat \<Rightarrow> nat \<Rightarrow> 'a list" where
  "slice xs i j = take (j - i) (drop i xs)"

text \<open>
  The loop of \<open>createBatches\<close> from index \<open>i\<close> on. With a batch size of 0 and a file left
  the index never advances and the loop does not end: that is the result \<open>None\<close>.
\<close>

function batchesFrom :: "nat \<Rightarrow> 'a list \<Rightarrow> nat \<Rightarrow> 'a list list option" where
  "batchesFrom i files n =
     (if i < length files then
        (if n = 0 then None
         else map_option ((#) (slice files i (i + n))) (batchesFrom (i + n) files n))
      else Some [])"
  by pat_completeness auto
termination
  by (relation "measure (\<lambda>(i, files, n). length files - i)") auto

declare batchesFrom.simps [simp del]

definition createBatches :: "'a list \<Rightarrow> nat \<Rightarrow> 'a list list option" where
  "createBatches files n = batchesFrom 0 files n"

subsection \<open>processBatch and uploadFilesToRepository\<close>

datatype uploadStatus = StatusSuccess | StatusFailed | StatusSkipped

text \<open>
  An entry of \<open>details\<close>: \<open>path\<close>, \<open>status\<close>, \<open>size\<close> (on success) and \<open>error\<close> (on
  failure).
\<close>

datatype uploadDetail = UploadDetail string uploadStatus "nat option" "string option"


fun detailStatus :: "uploadDetail \<Rightarrow> uploadStatus" where
  "detailStatus (UploadDetail p st sz er) = st"

record uploadResults =
  successCount :: nat
  failedCount :: nat
  skippedCount :: nat
  details :: "uploadDetail list"
  totalSize :: nat

text \<open>
  The uploads of a batch are started together and awaited with \<open>Promise.all\<close>; they
  interleave at their \<open>await\<close>s. The model runs them one after the other, in the order
  of the batch, which is also the order in which \<open>batchResults\<close> is read.
\<close>

fun runUploads ::
  "'n env \<Rightarrow> agent \<Rightarrow> string \<Rightarrow> string \<Rightarrow> options \<Rightarrow> fileInfo list \<Rightarrow> 'n state
   \<Rightarrow> (fileInfo \<times> (jsError option + json)) list \<times> 'n state" where
  "runUploads e a ownerName repoName opts [] s = ([], s)"
| "runUploads e a ownerName repoName opts (file # batch) s =
     (case uploadSingleFileWithRetry e a ownerName repoName file opts s of
        (outcome, s1) \<Rightarrow>
          (case runUploads e a ownerName repoName opts batch s1 of
             (outcomes, s2) \<Rightarrow> ((file, outcome) # outcomes, s2)))"

text \<open>
  The \<open>forEach\<close> over \<open>batchResults\<close>. Reading \<open>error.message\<close> of a thrown \<open>undefined\<close>
  throws a \<open>TypeError\<close>.
\<close>

fun recordOutcomes ::
  "(fileInfo \<times> (jsError option + json)) list \<Rightarrow> uploadResults \<Rightarrow> jsError + uploadResults" where
  "recordOutcomes [] results = Inr results"
| "recordOutcomes ((file, Inr result) # rest) results =
     recordOutcomes rest
       (results \<lparr> successCount := successCount results + 1,
                  totalSize := totalSize results + size file,
                  details := details results @
                    [UploadDetail (path file) StatusSuccess (Some (size file)) None] \<rparr>)"
| "recordOutcomes ((file, Inl (Some err)) # rest) results =
     recordOutcomes rest
       (results \<lparr> failedCount := failedCount results + 1,
                  details := details results @
                    [UploadDetail (path file) StatusFailed None (Some (messageOf err))] \<rparr>)"
| "recordOutcomes ((file, Inl None) # rest) results =
     Inl (TypeError ''Cannot read properties of undefined (reading 'message')'')"

definition processBatch ::
  "'n env \<Rightarrow> agent \<Rightarrow> string \<Rightarrow> string \<Rightarrow> fileInfo list \<Rightarrow> uploadResults \<Rightarrow> options
   \<Rightarrow> 'n state \<Rightarrow> (jsError + uploadResults) \<times> 'n state" where
  "processBatch e a ownerName repoName batch results opts s =
     (case runUploads e a ownerName repoName opts batch s of
        (batchResults, s1) \<Rightarrow> (recordOutcomes batchResults results, s1))"

text \<open>The loop over the batches: a pause of \<open>rateLimitDelay\<close> after each but the last.\<close>

fun processBatches ::
  "'n env \<Rightarrow> agent \<Rightarrow> string \<Rightarrow> string \<Rightarrow> options \<Rightarrow> fileInfo list list \<Rightarrow> uploadResults
   \<Rightarrow> 'n state \<Rightarrow> (jsError + uploadResults) \<times> 'n state" where
  "processBatches e a ownerName repoName opts [] results s = (Inr results, s)"
| "processBatches e a ownerName repoName opts (batch # batches) results s =
     (case processBatch e a ownerName repoName batch results opts s of
        (Inl err, s1) \<Rightarrow> (Inl err, s1)
      | (Inr results1, s1) \<Rightarrow>
          processBatches e a ownerName repoName opts batches results1
            (if batches \<noteq> [] then delay BetweenBatches (int (rateLimitDelay a)) s1 else s1))"

text \<open>\<open>uploadFilesToRepository\<close>; \<open>None\<close> when \<open>createBatches\<close> does not return.\<close>

definition uploadFilesToRepository ::
  "'n env \<Rightarrow> agent \<Rightarrow> string \<Rightarrow> string \<Rightarrow> fileInfo list \<Rightarrow> options \<Rightarrow> 'n state
   \<Rightarrow> ((jsError + uploadResults) \<times> 'n state) option" where
  "uploadFilesToRepository e a ownerName repoName files opts s =
     (let results = \<lparr> successCount = 0, failedCount = 0, skippedCount = 0, details = [],
                       totalSize = 0 \<rparr>;
          filteredFiles = filterAndSortFiles e files opts
      in case createBatches filteredFiles (batchSize a) of
           None \<Rightarrow> None
         | Some batches \<Rightarrow> Some (processBatches e a ownerName repoName opts batches results s))"

subsection \<open>createReadmeFile and createRepositoryAndUploadFiles\<close>







subsection \<open>Reading the trace\<close>

text \<open>The events a run added, from the state before and the state after.\<close>

definition newEvents :: "'n state \<Rightarrow> 'n state \<Rightarrow> event list" where
  "newEvents s s' = drop (length (trace s)) (trace s')"

text \<open>The events of the retry loop itself: a caught error and a backoff delay.\<close>

fun isRetryEvent :: "event \<Rightarrow> bool" where
  "isRetryEvent (Caught p k err) = True"
| "isRetryEvent (Delay Retry ms) = True"
| "isRetryEvent ev = False"


text \<open>The backoff delays, in order.\<close>

fun retryDelays :: "event list \<Rightarrow> int list" where
  "retryDelays [] = []"
| "retryDelays (Delay Retry ms # evs) = ms # retryDelays evs"
| "retryDelays (ev # evs) = retryDelays evs"

text \<open>The outcomes of the API calls, in order.\<close>

fun callOutcomes :: "event list \<Rightarrow> (jsError + json) list" where
  "callOutcomes [] = []"
| "callOutcomes (Call t0 t1 method endpoint data outcome # evs) = outcome # callOutcomes evs"
| "callOutcomes (ev # evs) = callOutcomes evs"

text \<open>The times of the API calls, in order: when each was called and when answered.\<close>

fun callTimes :: "event list \<Rightarrow> (int \<times> int) list" where
  "callTimes [] = []"
| "callTimes (Call t0 t1 method endpoint data outcome # evs) = (t0, t1) # callTimes evs"
| "callTimes (ev # evs) = callTimes evs"





text \<open>A run from \<open>s\<close> to \<open>s'\<close> only added events, none of them of the retry loop.\<close>

definition quietRun :: "'n state \<Rightarrow> 'n state \<Rightarrow> bool" where
  "quietRun s s' = (\<exists>evs. trace s' = trace s @ evs \<and> filter isRetryEvent evs = [])"

subsection \<open>A test environment\<close>

text \<open>
  For concrete runs: the remote side counts the requests it has received and answers
  the \<open>k\<close>-th request (from 0) as a script says; every answer takes 50 ms. Strings are
  compared by their character codes.
\<close>

fun codeCompare :: "string \<Rightarrow> string \<Rightarrow> int" where
  "codeCompare [] [] = 0"
| "codeCompare [] (y # ys) = -1"
| "codeCompare (x # xs) [] = 1"
| "codeCompare (x # xs) (y # ys) =
     (if (of_char x :: nat) < of_char y then -1
      else if (of_char y :: nat) < of_char x then 1
      else codeCompare xs ys)"

definition scripted :: "(nat \<Rightarrow> request \<Rightarrow> fetchResult) \<Rightarrow> nat env" where
  "scripted script =
     \<lparr> fetch = (\<lambda>k t req. (script k req, 50, k + 1)),
       localeCompare = codeCompare,
       stringOf = (\<lambda>j. case j of JStr m \<Rightarrow> m | _ \<Rightarrow> []),
       base64 = (\<lambda>text. text),
       generateReadmeContent = (\<lambda>t repoName files. Inr (''# '' @ repoName)) \<rparr>"

definition answer :: "nat \<Rightarrow> string \<Rightarrow> json \<Rightarrow> fetchResult" where
  "answer code reason j = Resolved \<lparr> status = code, statusText = reason, jsonBody = Inr j \<rparr>"

text \<open>The agent the workflow node builds, on its defaults, and a small file.\<close>

definition testAgent :: agent where
  "testAgent = GitHubAgent
     \<lparr> cfgGithubToken = ''token'', cfgMcpServerUrl = [], cfgOwner = ''octo'',
       cfgMaxRetries = None, cfgRetryDelay = None, cfgBatchSize = Some 3,
       cfgRateLimitDelay = None \<rparr>"

definition testFile :: "string \<Rightarrow> nat \<Rightarrow> fileInfo" where
  "testFile p n =
     fileInfoOf 0 p \<lparr> dir = False, dataSizes = Some (n, n), date = None, decoded = Some ''YQ=='' \<rparr>
       ''YQ==''"






text \<open>
  A remote side that takes 40100 ms to answer, and then accepts.
\<close>

definition slowReady :: "nat env" where
  "slowReady = (scripted (\<lambda>k req. answer 200 ''OK'' (JObj [])))
     \<lparr> fetch := (\<lambda>k t req. (answer 200 ''OK'' (JObj []), 40100, k + 1)) \<rparr>"









definition smallOnly :: options where
  "smallOnly = noOptions \<lparr> maxFileSize := Some 5 \<rparr>"

section \<open>Properties of ZipProcessor\<close>

subsection \<open>Properties of generateFolderName\<close>

lemma lowerChar_ident: "allowedChar c \<Longrightarrow> identChar (lowerChar c)"
  unfolding allowedChar_def identChar_def lowerChar_def isUpper_def isLower_def isDigit_def
  by auto

lemma lowerChar_id: "identChar c \<Longrightarrow> lowerChar c = c"
  unfolding identChar_def lowerChar_def isUpper_def isLower_def isDigit_def
  by auto

lemma lowerChar_dash: "(lowerChar c = CHR ''-'') = (c = CHR ''-'')"
proof -
  have "isUpper c \<Longrightarrow> char_of ((of_char c :: nat) + 32) \<noteq> CHR ''-''"
  proof
    assume u: "isUpper c" and e: "char_of ((of_char c :: nat) + 32) = CHR ''-''"
    from e have "(of_char (char_of ((of_char c :: nat) + 32)) :: nat) = of_char CHR ''-''"
      by simp
    with u show False by (simp add: isUpper_def)
  qed
  moreover have "\<not> isUpper CHR ''-''" by (simp add: isUpper_def)
  ultimately show ?thesis by (auto simp: lowerChar_def)
qed

lemma collapse_hd: "\<exists>t. collapseDashes (b # r) = b # t"
  by (induction r arbitrary: b) auto

lemma collapse_noDD: "noDoubleDash (collapseDashes s)"
proof (induction s rule: collapseDashes.induct)
  case (1 a b r)
  obtain t where t: "collapseDashes (b # r) = b # t" using collapse_hd by blast
  with 1 show ?case by auto
qed auto

lemma collapse_id: "noDoubleDash s \<Longrightarrow> collapseDashes s = s"
  by (induction s rule: collapseDashes.induct) auto

lemma collapse_all: "list_all P s \<Longrightarrow> list_all P (collapseDashes s)"
  by (induction s rule: collapseDashes.induct) auto

lemma collapse_length: "length (collapseDashes s) \<le> length s"
  by (induction s rule: collapseDashes.induct) auto

lemma noDD_tl: "noDoubleDash (c # r) \<Longrightarrow> noDoubleDash r"
  by (cases r) auto

lemma noDD_butlast: "noDoubleDash s \<Longrightarrow> noDoubleDash (butlast s)"
  by (induction s rule: noDoubleDash.induct) (auto split: if_splits)

lemma noDD_last: "noDoubleDash s \<Longrightarrow> s \<noteq> [] \<Longrightarrow> last s = CHR ''-'' \<Longrightarrow> butlast s \<noteq> [] \<Longrightarrow>
   last (butlast s) \<noteq> CHR ''-''"
  by (induction s rule: noDoubleDash.induct) (auto split: if_splits)

lemma hd_butlast: "butlast s \<noteq> [] \<Longrightarrow> hd (butlast s) = hd s"
  by (cases s) (auto split: if_splits)

lemma trimDash_all: "list_all P s \<Longrightarrow> list_all P (trimDash s)"
  by (auto simp: trimDash_def Let_def list_all_iff split: list.splits dest: in_set_butlastD)

lemma trimDash_length: "length (trimDash s) \<le> length s"
  by (auto simp: trimDash_def Let_def split: list.splits)

lemma trimDash_ends:
  assumes "noDoubleDash s"
  shows "noDoubleDash (trimDash s) \<and>
     (trimDash s = [] \<or> (hd (trimDash s) \<noteq> CHR ''-'' \<and> last (trimDash s) \<noteq> CHR ''-''))"
proof -
  define s1 where "s1 = (case s of [] \<Rightarrow> [] | c # r \<Rightarrow> if c = CHR ''-'' then r else s)"
  have t: "trimDash s = (if s1 \<noteq> [] \<and> last s1 = CHR ''-'' then butlast s1 else s1)"
    by (simp add: trimDash_def s1_def)
  have n1: "noDoubleDash s1"
    using assms by (auto simp: s1_def split: list.splits dest: noDD_tl)
  have h1: "s1 = [] \<or> hd s1 \<noteq> CHR ''-''"
  proof (cases s)
    case Nil then show ?thesis by (simp add: s1_def)
  next
    case (Cons c r)
    show ?thesis
    proof (cases "c = CHR ''-''")
      case True
      with Cons assms show ?thesis by (cases r) (auto simp: s1_def)
    next
      case False
      with Cons show ?thesis by (simp add: s1_def)
    qed
  qed
  show ?thesis
  proof (cases "s1 \<noteq> [] \<and> last s1 = CHR ''-''")
    case True
    then have e: "trimDash s = butlast s1" using t by simp
    have "noDoubleDash (butlast s1)" using n1 by (rule noDD_butlast)
    moreover have "butlast s1 \<noteq> [] \<Longrightarrow> hd (butlast s1) \<noteq> CHR ''-''"
      using h1 True by (simp add: hd_butlast)
    moreover have "butlast s1 \<noteq> [] \<Longrightarrow> last (butlast s1) \<noteq> CHR ''-''"
      using noDD_last [OF n1] True by simp
    ultimately show ?thesis using e by auto
  next
    case False
    then have e: "trimDash s = s1" using t by auto
    show ?thesis using e n1 h1 False by auto
  qed
qed

lemma trimDash_id: "s = [] \<or> (hd s \<noteq> CHR ''-'' \<and> last s \<noteq> CHR ''-'') \<Longrightarrow> trimDash s = s"
  by (cases s) (auto simp: trimDash_def)

lemma noDD_lower: "noDoubleDash (map lowerChar s) = noDoubleDash s"
  by (induction s rule: noDoubleDash.induct) (auto simp: lowerChar_dash)

lemma replace_all: "list_all allowedChar (replaceDisallowed s)"
  by (induction s) (auto simp: replaceDisallowed_def allowedChar_def)

lemma lower_all: "list_all allowedChar s \<Longrightarrow> list_all identChar (toLowerCase s)"
  by (induction s) (auto simp: toLowerCase_def lowerChar_ident)

lemma lower_id: "list_all identChar s \<Longrightarrow> toLowerCase s = s"
  by (induction s) (auto simp: toLowerCase_def lowerChar_id)

lemma ident_allowed: "identChar c \<Longrightarrow> allowedChar c"
  by (auto simp: identChar_def allowedChar_def)

lemma replace_id: "list_all identChar s \<Longrightarrow> replaceDisallowed s = s"
  by (induction s) (auto simp: replaceDisallowed_def ident_allowed)

lemma strip_length: "length (stripZipSuffix s) \<le> length s"
  by (simp add: stripZipSuffix_def)

lemma strip_id:
  assumes "list_all identChar s"
  shows "stripZipSuffix s = s"
proof (rule ccontr)
  assume "stripZipSuffix s \<noteq> s"
  then have l: "4 \<le> length s" and z: "toLowerCase (drop (length s - 4) s) = ''.zip''"
    by (auto simp: stripZipSuffix_def split: if_splits)
  have "list_all identChar (drop (length s - 4) s)"
    using assms by (auto simp: list_all_iff dest: in_set_dropD)
  then have "toLowerCase (drop (length s - 4) s) = drop (length s - 4) s"
    by (rule lower_id)
  with z have "drop (length s - 4) s = ''.zip''" by simp
  then have "CHR ''.'' \<in> set (drop (length s - 4) s)" by simp
  then have "CHR ''.'' \<in> set s" by (rule in_set_dropD)
  with assms have "identChar CHR ''.''" by (simp add: list_all_iff)
  then show False by (simp add: identChar_def isLower_def isDigit_def)
qed

lemma generateFolderName_clean: "cleanName (generateFolderName n)"
proof -
  let ?c = "collapseDashes (replaceDisallowed (stripZipSuffix n))"
  have a: "list_all allowedChar (trimDash ?c)"
    by (intro trimDash_all collapse_all replace_all)
  have e: "noDoubleDash (trimDash ?c) \<and>
     (trimDash ?c = [] \<or> (hd (trimDash ?c) \<noteq> CHR ''-'' \<and> last (trimDash ?c) \<noteq> CHR ''-''))"
    by (rule trimDash_ends [OF collapse_noDD])
  have 1: "list_all identChar (toLowerCase (trimDash ?c))"
    using a by (rule lower_all)
  have 2: "noDoubleDash (toLowerCase (trimDash ?c))"
    using e by (simp add: toLowerCase_def noDD_lower)
  have 3: "toLowerCase (trimDash ?c) = [] \<or>
     (hd (toLowerCase (trimDash ?c)) \<noteq> CHR ''-'' \<and> last (toLowerCase (trimDash ?c)) \<noteq> CHR ''-'')"
    using e by (auto simp: toLowerCase_def hd_map last_map lowerChar_dash)
  show ?thesis
    unfolding cleanName_def generateFolderName_def using 1 2 3 by blast
qed

lemma generateFolderName_fix: "cleanName s \<Longrightarrow> generateFolderName s = s"
  by (simp add: cleanName_def generateFolderName_def strip_id replace_id collapse_id
      trimDash_id lower_id)

lemma generateFolderName_length: "length (generateFolderName n) \<le> length n"
proof -
  have "length (generateFolderName n) \<le> length (collapseDashes (replaceDisallowed (stripZipSuffix n)))"
    by (simp add: generateFolderName_def toLowerCase_def trimDash_length)
  also have "\<dots> \<le> length (replaceDisallowed (stripZipSuffix n))" by (rule collapse_length)
  also have "\<dots> \<le> length n" by (simp add: replaceDisallowed_def strip_length)
  finally show ?thesis .
qed

text \<open>
  C5 (as amended). \<open>generateFolderName\<close> is idempotent, every character of its result
  is in \<open>[a-z0-9_-]\<close>, and the result is no longer than the archive name. It can be
  empty and it can be longer than 100 characters: both are rejected later, by
  \<open>GitHubAgent.validateInput\<close>.
\<close>

theorem generateFolderName_idempotent_charset:
  "generateFolderName (generateFolderName n) = generateFolderName n \<and>
   list_all identChar (generateFolderName n) \<and>
   length (generateFolderName n) \<le> length n"
  using generateFolderName_clean [of n] generateFolderName_length [of n]
  by (simp add: generateFolderName_fix cleanName_def)

text \<open>
  C5 as stated fails: the archive name \<open>.zip\<close> is sanitised to the empty string, which
  does not match \<open>^[a-z0-9_-]+$\<close>, and a name of 101 letters keeps its 101 characters.
\<close>

theorem generateFolderName_counterexample:
  "generateFolderName ''.zip'' = [] \<and> \<not> matchesIdent (generateFolderName ''.zip'') \<and>
   length (generateFolderName (replicate 101 CHR ''a'')) = 101"
  by code_simp

subsection \<open>Properties of detectMimeType and generateStatistics\<close>


lemma lastIndexOf_none: "c \<notin> set s \<Longrightarrow> lastIndexOf s c = -1"
  by (induction s) (auto simp: Let_def)

lemma extensionOf_no_dot: "CHR ''.'' \<notin> set s \<Longrightarrow> extensionOf s = toLowerCase s"
  by (simp add: extensionOf_def lastIndexOf_none substringFrom_def)

lemma detectMimeType_no_dot:
  "CHR ''.'' \<notin> set p \<Longrightarrow> detectMimeType p = mimeTypeOf (toLowerCase p)"
  by (simp add: detectMimeType_def lastIndexOf_none substringFrom_def)

lemma bump_other: "k \<noteq> e \<Longrightarrow> map_of (bumpFileType ft e) k = map_of ft k"
  by (auto simp: bumpFileType_def update_conv' split: option.splits histValue.splits)

lemma bump_fresh: "k \<notin> set objectPrototypeKeys \<Longrightarrow> map_of ft k = None \<Longrightarrow>
   map_of (bumpFileType ft k) k = Some (Count 1)"
  by (auto simp: bumpFileType_def update_conv' objectPrototypeKeys_def)

lemma bump_count: "map_of ft k = Some (Count n) \<Longrightarrow>
   map_of (bumpFileType ft k) k = Some (Count (n + 1))"
  by (auto simp: bumpFileType_def update_conv')

lemma fileTypes_step [simp]:
  "fileTypes (statisticsStep f st) = bumpFileType (fileTypes st) (extensionOf (name f))"
  by (simp add: statisticsStep_def)

lemma fileTypes_fold:
  assumes "k \<notin> set objectPrototypeKeys"
    and "map_of (fileTypes st) k = (if n = 0 then None else Some (Count n))"
  shows "map_of (fileTypes (fold statisticsStep files st)) k =
     (let c = n + length (filter (\<lambda>g. extensionOf (name g) = k) files)
      in if c = 0 then None else Some (Count c))"
  using assms(2)
proof (induction files arbitrary: st n)
  case Nil
  then show ?case by simp
next
  case (Cons f files)
  show ?case
  proof (cases "extensionOf (name f) = k")
    case True
    have "map_of (fileTypes (statisticsStep f st)) k = Some (Count (n + 1))"
      using Cons.prems True assms(1) by (cases "n = 0") (simp_all add: bump_fresh bump_count)
    then have "map_of (fileTypes (statisticsStep f st)) k =
        (if n + 1 = 0 then None else Some (Count (n + 1)))" by simp
    from Cons.IH [OF this] show ?thesis using True by (simp add: Let_def)
  next
    case False
    then have "map_of (fileTypes (statisticsStep f st)) k = (if n = 0 then None else Some (Count n))"
      using Cons.prems by (simp add: bump_other)
    from Cons.IH [OF this] show ?thesis using False by (simp add: Let_def)
  qed
qed

lemma fileTypes_generateStatistics:
  assumes "k \<notin> set objectPrototypeKeys"
  shows "map_of (fileTypes (generateStatistics files)) k =
     (let c = length (filter (\<lambda>g. extensionOf (name g) = k) files)
      in if c = 0 then None else Some (Count c))"
  using fileTypes_fold [OF assms, where n = 0] by (simp add: generateStatistics_def)

text \<open>
  C10 (as amended). For a file whose name has no \<open>.\<close>, \<open>generateStatistics\<close> takes the
  whole lowercased name as the extension and counts the file under that key of
  \<open>fileTypes\<close> (unless the key is a property name of \<open>Object.prototype\<close>).
  \<open>detectMimeType\<close> is applied to the path, not to the name: it looks up the whole
  lowercased path when the path has no \<open>.\<close>, which is the whole name only for a file
  at the root of the archive.
\<close>

theorem no_dot_whole_key:
  assumes "CHR ''.'' \<notin> set (name f)"
  shows "extensionOf (name f) = toLowerCase (name f) \<and>
    (CHR ''.'' \<notin> set (path f) \<longrightarrow>
       detectMimeType (path f) = mimeTypeOf (toLowerCase (path f))) \<and>
    (f \<in> set files \<and> toLowerCase (name f) \<notin> set objectPrototypeKeys \<longrightarrow>
       map_of (fileTypes (generateStatistics files)) (toLowerCase (name f)) =
         Some (Count (length (filter (\<lambda>g. extensionOf (name g) = toLowerCase (name f)) files))))"
proof -
  have e: "extensionOf (name f) = toLowerCase (name f)"
    using assms by (rule extensionOf_no_dot)
  have "length (filter (\<lambda>g. extensionOf (name g) = toLowerCase (name f)) files) \<noteq> 0"
    if "f \<in> set files"
    using that e by (auto simp: filter_empty_conv)
  then show ?thesis
    using e by (auto simp: detectMimeType_no_dot fileTypes_generateStatistics Let_def)
qed

text \<open>
  At the file \<open>json\<close> at the root of an archive: its type is \<open>application/json\<close>, and
  with \<open>src/json\<close> beside it the key \<open>json\<close> of the histogram counts 2.
\<close>

theorem no_dot_whole_key_witness:
  "CHR ''.'' \<notin> set (name rootJson) \<and> name rootJson = ''json'' \<and>
   extensionOf (name rootJson) = ''json'' \<and>
   mimeType rootJson = JsString ''application/json'' \<and>
   map_of (fileTypes (generateStatistics [nestedJson, rootJson])) ''json'' = Some (Count 2)"
proof -
  have n: "name rootJson = ''json''" "path rootJson = ''json''"
     "mimeType rootJson = detectMimeType ''json''" "name nestedJson = ''json''"
    by (simp_all add: rootJson_def nestedJson_def fileInfoOf_def)
  have h: "CHR ''.'' \<notin> set (name rootJson)" by (simp add: n)
  have l: "toLowerCase ''json'' = ''json''" by code_simp
  have k: "''json'' \<notin> set objectPrototypeKeys" by (simp add: objectPrototypeKeys_def)
  have m: "mimeTypeOf ''json'' = JsString ''application/json''"
    by (simp add: mimeTypeOf_def mimeTypes_def)
  have x: "extensionOf ''json'' = ''json''" by code_simp
  show ?thesis
    using no_dot_whole_key [OF h, of "[nestedJson, rootJson]"] h k
    by (simp add: n l m x)
qed

text \<open>
  C10 as stated fails for a file below the root: \<open>src/json\<close> has the name \<open>json\<close>, the
  table has an entry for \<open>json\<close>, and the file still gets the default type, because the
  key looked up is \<open>src/json\<close>.
\<close>

theorem nested_no_dot_counterexample:
  "name nestedJson = ''json'' \<and> CHR ''.'' \<notin> set (name nestedJson) \<and>
   mimeTypeOf (toLowerCase (name nestedJson)) = JsString ''application/json'' \<and>
   mimeType nestedJson = JsString ''application/octet-stream''"
  by code_simp

subsection \<open>Properties of buildFileStructure\<close>


























section \<open>Properties of GitHubAgent\<close>

subsection \<open>The retry loop\<close>

lemma quietRun_refl: "quietRun s s"
  by (simp add: quietRun_def)







lemma retryDelays_append: "retryDelays (xs @ ys) = retryDelays xs @ retryDelays ys"
  by (induction xs rule: retryDelays.induct) auto


lemma retryDelays_quiet: "filter isRetryEvent evs = [] \<Longrightarrow> retryDelays evs = []"
  by (induction evs rule: retryDelays.induct) (auto split: if_splits)








lemma testAgent_eq:
  "testAgent = \<lparr> githubToken = ''token'', mcpServerUrl = [], owner = ''octo'', maxRetries = 3,
     retryDelay = 1000, batchSize = 3, rateLimitDelay = 100 \<rparr>"
  by (simp add: testAgent_def GitHubAgent_def orDefault_def)














subsection \<open>The readiness loop\<close>















text \<open>
  C9 as stated fails: against a remote side that takes 40100 ms to answer, the one
  lookup is made at the start and succeeds 40100 ms later, after the budget of 30000 ms
  has elapsed; no lookup has succeeded within the budget, and the wait returns without
  error.
\<close>

theorem slow_lookup_counterexample:
  "fst (waitForRepositoryReady slowReady testAgent ''octo'' ''repo'' 30000
          (initialState 1000 0)) = Inr () \<and>
   callTimes (newEvents (initialState 1000 0)
     (snd (waitForRepositoryReady slowReady testAgent ''octo'' ''repo'' 30000
          (initialState 1000 0)))) = [(1000, 41100)] \<and>
   callOutcomes (newEvents (initialState 1000 0)
     (snd (waitForRepositoryReady slowReady testAgent ''octo'' ''repo'' 30000
          (initialState 1000 0)))) = [Inr (JObj [])] \<and>
   now (snd (waitForRepositoryReady slowReady testAgent ''octo'' ''repo'' 30000
          (initialState 1000 0))) - now (initialState 1000 (0::nat)) = 40100"
  by (simp add: waitForRepositoryReady_def waitLoop.simps makeGitHubApiCall_def requestOf_def
      outcomeOf_def slowReady_def scripted_def answer_def ok_def enforceRateLimit_def
      rateLimitWait_def delay_def initialState_def testAgent_eq Let_def newEvents_def)

subsection \<open>Batches\<close>






lemma batchesFrom_concat:
  assumes "0 < n"
  shows "\<exists>bs. batchesFrom i xs n = Some bs \<and> concat bs = drop i xs"
proof (induction "length xs - i" arbitrary: i rule: less_induct)
  case less
  show ?case
  proof (cases "i < length xs")
    case False
    then show ?thesis by (subst batchesFrom.simps) simp
  next
    case True
    with assms have "length xs - (i + n) < length xs - i" by simp
    from less [OF this] obtain bs where b: "batchesFrom (i + n) xs n = Some bs"
      and c: "concat bs = drop (i + n) xs" by blast
    have "batchesFrom i xs n = Some (slice xs i (i + n) # bs)"
      using True assms b by (subst batchesFrom.simps) simp
    moreover have "concat (slice xs i (i + n) # bs) = drop i xs"
      using c by (simp add: slice_def add.commute [of i n] flip: drop_drop)
    ultimately show ?thesis by blast
  qed
qed












subsection \<open>Files excluded by the filter\<close>

text \<open>
  C1. The code does not do what the claim says: a file of 10 bytes is excluded by a
  \<open>maxFileSize\<close> of 5, and the result, for any remote side, agent and state, has
  \<open>skippedCount = 0\<close> and empty \<open>details\<close>. The excluded file is not attempted (the state
  is returned as it was), but it is neither counted nor listed as skipped.
\<close>

theorem excluded_file_not_counted:
  "uploadFilesToRepository e a ow rp [testFile ''big.bin'' 10] smallOnly s =
     Some (Inr \<lparr> successCount = 0, failedCount = 0, skippedCount = 0, details = [],
                  totalSize = 0 \<rparr>, s) \<and>
   \<not> passesSize smallOnly (testFile ''big.bin'' 10)"
  by (simp add: uploadFilesToRepository_def filterAndSortFiles_def sortFiles_def
      passesSize_def passesExtension_def smallOnly_def noOptions_def testFile_def
      fileInfoOf_def createBatches_def batchesFrom.simps)

text \<open>
  More generally, no run of \<open>uploadFilesToRepository\<close> ever counts a skipped file or
  lists one: \<open>skippedCount\<close> is set to 0 and never written again.
\<close>

lemma recordOutcomes_skipped:
  "recordOutcomes outs res = Inr res' \<Longrightarrow>
   skippedCount res' = skippedCount res \<and>
   (StatusSkipped \<notin> detailStatus ` set (details res) \<longrightarrow>
    StatusSkipped \<notin> detailStatus ` set (details res'))"
  by (induction outs res arbitrary: res' rule: recordOutcomes.induct) auto

lemma processBatches_skipped:
  "processBatches e a ow rp opts batches res s = (Inr res', s') \<Longrightarrow>
   skippedCount res' = skippedCount res \<and>
   (StatusSkipped \<notin> detailStatus ` set (details res) \<longrightarrow>
    StatusSkipped \<notin> detailStatus ` set (details res'))"
proof (induction batches arbitrary: res s)
  case Nil
  then show ?case by simp
next
  case (Cons batch batches)
  obtain r1 s1 where p: "processBatch e a ow rp batch res opts s = (r1, s1)"
    by (cases "processBatch e a ow rp batch res opts s")
  with Cons.prems obtain res1 where r1: "r1 = Inr res1" by (cases r1) auto
  from p r1 have "recordOutcomes (fst (runUploads e a ow rp opts batch s)) res = Inr res1"
    by (auto simp: processBatch_def split: prod.splits)
  from recordOutcomes_skipped [OF this] Cons.IH [of res1] Cons.prems p r1
  show ?case by auto
qed

lemma skipped_never_recorded:
  assumes "uploadFilesToRepository e a ow rp files opts s = Some (Inr res, s')"
  shows "skippedCount res = 0 \<and> StatusSkipped \<notin> detailStatus ` set (details res)"
  using assms processBatches_skipped [of e a ow rp opts _
      "\<lparr> successCount = 0, failedCount = 0, skippedCount = 0, details = [], totalSize = 0 \<rparr>"
      s res s']
  by (auto simp: uploadFilesToRepository_def Let_def split: option.splits)

subsection \<open>The summary document\<close>











subsection \<open>The rate limiter\<close>

text \<open>
  One caller at a time: two consecutive completions of \<open>enforceRateLimit\<close> are at least
  \<open>rateLimitDelay\<close> apart.
\<close>

lemma sequential_callers_spaced:
  "int (rateLimitDelay a) \<le> lastRequestTime (enforceRateLimit a s) - lastRequestTime s"
  by (simp add: enforceRateLimit_def rateLimitWait_def delay_def Let_def)

text \<open>
  C8. The code does not do what the claim says: the timestamp is read before the wait
  and written after it, and callers started together run between the two. With a
  \<open>rateLimitDelay\<close> of 100 ms, three callers started together at the time 1000 (the last
  request was at 0) complete at 1000, 1100 and 1100: the second and the third have
  both read the timestamp 1000, wait the same 100 ms and complete at the same time.
\<close>

theorem concurrent_callers_complete_together:
  "concurrentCallers testAgent 1000 0 3 = [(0, 1000), (1, 1100), (2, 1100)] \<and>
   rateLimitDelay testAgent = 100"
  by (simp add: concurrentCallers_def startCaller_def fireTimer_def rateLimitWait_def
      testAgent_eq upt_conv_Cons Let_def)

subsection \<open>Agents built by the constructor\<close>

text \<open>
  The constructor's defaults make \<open>maxRetries\<close> at least 1 and \<open>batchSize\<close> positive, so
  the hypotheses of that kind above hold for every agent it builds, and
  \<open>uploadFilesToRepository\<close> returns for it.
\<close>

lemma GitHubAgent_positive:
  "1 \<le> maxRetries (GitHubAgent cfg) \<and> 0 < batchSize (GitHubAgent cfg)"
  by (simp add: GitHubAgent_def orDefault_def split: option.splits)

lemma uploadFilesToRepository_returns:
  assumes "0 < batchSize a"
  shows "\<exists>r s'. uploadFilesToRepository e a ow rp files opts s = Some (r, s')"
proof -
  from batchesFrom_concat [OF assms, of 0 "filterAndSortFiles e files opts"]
  obtain bs where "createBatches (filterAndSortFiles e files opts) (batchSize a) = Some bs"
    by (auto simp: createBatches_def)
  then show ?thesis
    by (cases "processBatches e a ow rp opts bs
        \<lparr> successCount = 0, failedCount = 0, skippedCount = 0, details = [], totalSize = 0 \<rparr> s")
       (simp add: uploadFilesToRepository_def)
qed

end
